theory Spec2Isabelle
  imports Main "HOL-Library.Product_Lexorder"
begin

section \<open>The warning-rule evaluator of pages/6\_Warnings.py\<close>

text \<open>
  The page evaluates boolean warning rules against the preference selections a user has
  stored for one data source. Everything it knows lives in a SQL Server database; the
  functions of the page read it with SELECT statements and hand the result sets on as
  pandas data frames, whose rows the evaluator walks with \<open>itertuples()\<close>.

  The model keeps that shape: the database is a record of tables, a query is a function
  from the database to its result set and the (unchanged or changed) database, a row of a
  data frame is a named tuple that is asked for its attributes by name, and every Python
  exception is a value of the type \<open>error\<close>. The store is assumed reachable: a failing
  connection is not modelled. Text is ASCII.
\<close>

subsection \<open>Tables\<close>

text \<open>
  \<open>dbo.userNodePreference\<close> is created by pages/5\_UserMappings.py (\<open>init_schema\<close>): all
  columns NOT NULL, primary key (userName, pillarNode\_id, dataSource). The tables of the
  rules have no DDL in the repository; their columns are the ones the INSERT and SELECT
  statements of pages/6\_Warnings.py name, \<open>id\<close> being the key of each table. Time
  stamps are integers.
\<close>

record pillarNode_rec =
  pn_id :: int
  pn_pillarNode :: string

record pillarNodeValue_rec =
  pv_id :: int
  pv_pillarNodeValue :: string

record userNodePreference_rec =
  up_userName :: string
  up_pillarNode_id :: int
  up_pillarNodeValue_id :: int
  up_dataSource :: string
  up_dateAdded :: int

record warningRule_rec =
  wr_id :: int
  wr_name :: string
  wr_message :: string
  wr_severity :: string
  wr_isActive :: bool
  wr_dataSourceFilter :: "string option"
  wr_dateAdded :: int

record warningRuleCondition_rec =
  wc_id :: int
  wc_rule_id :: int
  wc_pillarNode_id :: int
  wc_operator :: string
  wc_pillarNodeValue_id :: "int option"

record db =
  pillarNode :: "pillarNode_rec list"
  pillarNodeValue :: "pillarNodeValue_rec list"
  userNodePreference :: "userNodePreference_rec list"
  warningRule :: "warningRule_rec list"
  warningRuleCondition :: "warningRuleCondition_rec list"

subsection \<open>Python values, named tuples and exceptions\<close>

datatype error = AttributeError | TypeError | ValueError

text \<open>
  A cell of a data frame. \<open>NoneC\<close> is a SQL NULL that reaches Python as \<open>None\<close>; it
  also stands for the NULL of a numeric column, which the evaluator hands to \<open>pd.notna\<close>
  and to nothing else. \<open>NaNC\<close> is the float NaN, \<open>TimeC\<close> a time stamp.
\<close>

datatype cell = NoneC | NaNC | IntC int | StrC string | BoolC bool | TimeC int

text \<open>
  A row as \<open>itertuples()\<close> yields it: the columns of the SELECT list, by name, in order.
  A hit (a Python dict with string keys) has the same shape.
\<close>

type_synonym row = "(string \<times> cell) list"

definition getattr :: "row \<Rightarrow> string \<Rightarrow> error + cell" where
  \<comment> \<open>\<open>r.name\<close>: a named tuple raises AttributeError for a name that is not a column\<close>
  "getattr r a = (case map_of r a of None \<Rightarrow> Inl AttributeError | Some c \<Rightarrow> Inr c)"

fun truthy :: "cell \<Rightarrow> bool" where
  \<comment> \<open>Python truth value\<close>
  "truthy NoneC = False"
| "truthy NaNC = True"
| "truthy (IntC n) = (n \<noteq> 0)"
| "truthy (StrC s) = (s \<noteq> [])"
| "truthy (BoolC b) = b"
| "truthy (TimeC t) = True"

fun py_int :: "cell \<Rightarrow> error + int" where
  \<comment> \<open>\<open>int(x)\<close>. No query of the page puts text into a column that is passed to int(),
      so the conversion of a digit string is not modelled: a str cell counts as not numeric.\<close>
  "py_int (IntC n) = Inr n"
| "py_int (BoolC b) = Inr (if b then 1 else 0)"
| "py_int NoneC = Inl TypeError"
| "py_int (TimeC t) = Inl TypeError"
| "py_int NaNC = Inl ValueError"
| "py_int (StrC s) = Inl ValueError"

fun notna :: "cell \<Rightarrow> bool" where
  \<comment> \<open>\<open>pd.notna(x)\<close>\<close>
  "notna NoneC = False"
| "notna NaNC = False"
| "notna c = True"

definition upper_char :: "char \<Rightarrow> char" where
  "upper_char c =
     (let n = (of_char c :: nat) in if 97 \<le> n \<and> n \<le> 122 then char_of (n - 32) else c)"

definition upper :: "string \<Rightarrow> string" where
  \<comment> \<open>\<open>str.upper()\<close> on ASCII text\<close>
  "upper s = map upper_char s"

fun py_upper :: "cell \<Rightarrow> error + string" where
  \<comment> \<open>\<open>x.upper()\<close>: only a str has the method\<close>
  "py_upper (StrC s) = Inr (upper s)"
| "py_upper c = Inl AttributeError"

definition bindE :: "error + 'a \<Rightarrow> ('a \<Rightarrow> error + 'b) \<Rightarrow> error + 'b" where
  \<comment> \<open>sequencing: the first exception ends the computation\<close>
  "bindE m f = (case m of Inl e \<Rightarrow> Inl e | Inr x \<Rightarrow> f x)"

subsection \<open>Queries\<close>

definition left_join :: "('a \<Rightarrow> bool) \<Rightarrow> 'a list \<Rightarrow> 'a option list" where
  \<comment> \<open>the partners of one left row in a LEFT JOIN: a single NULL partner when none matches\<close>
  "left_join p xs = (case filter p xs of [] \<Rightarrow> [None] | ys \<Rightarrow> map Some ys)"

type_synonym prefs = "int \<rightharpoonup> int"

definition fetch_user_pref_map :: "string \<Rightarrow> string \<Rightarrow> db \<Rightarrow> prefs \<times> db" where
  \<comment> \<open>lines 159-167: SELECT pillarNode\_id, pillarNodeValue\_id ... WHERE userName=:u AND
      dataSource=:ds, then a dict comprehension (a later row replaces an earlier one)\<close>
  "fetch_user_pref_map user_name data_source d =
     (let rows = map (\<lambda>p. (up_pillarNode_id p, up_pillarNodeValue_id p))
                   (filter (\<lambda>p. up_userName p = user_name \<and> up_dataSource p = data_source)
                      (userNodePreference d))
      in (fold (\<lambda>r m. m(fst r \<mapsto> snd r)) rows Map.empty, d))"

definition condition_text ::
  "warningRuleCondition_rec option \<Rightarrow> pillarNode_rec option \<Rightarrow> pillarNodeValue_rec option \<Rightarrow> string"
where
  \<comment> \<open>CONCAT(n.pillarNode, ' ', c.operator, ' ', COALESCE(v.pillarNodeValue, 'NULL')):
      CONCAT reads a NULL argument as the empty string\<close>
  "condition_text c n v =
     (case n of None \<Rightarrow> [] | Some n' \<Rightarrow> pn_pillarNode n') @ '' '' @
     (case c of None \<Rightarrow> [] | Some c' \<Rightarrow> wc_operator c') @ '' '' @
     (case v of None \<Rightarrow> ''NULL'' | Some v' \<Rightarrow> pv_pillarNodeValue v')"

definition join_node :: "db \<Rightarrow> warningRuleCondition_rec option \<Rightarrow> pillarNode_rec option list" where
  \<comment> \<open>LEFT JOIN dbo.pillarNode n ON n.id = c.pillarNode\_id\<close>
  "join_node d c =
     (case c of None \<Rightarrow> [None]
      | Some c' \<Rightarrow> left_join (\<lambda>n. pn_id n = wc_pillarNode_id c') (pillarNode d))"

definition join_value :: "db \<Rightarrow> warningRuleCondition_rec option \<Rightarrow> pillarNodeValue_rec option list" where
  \<comment> \<open>LEFT JOIN dbo.pillarNodeValue v ON v.id = c.pillarNodeValue\_id\<close>
  "join_value d c =
     (case c of None \<Rightarrow> [None]
      | Some c' \<Rightarrow> left_join (\<lambda>v. Some (pv_id v) = wc_pillarNodeValue_id c') (pillarNodeValue d))"

fun string_agg :: "string list \<Rightarrow> string \<Rightarrow> string" where
  \<comment> \<open>STRING\_AGG(x, sep) over the values of one group\<close>
  "string_agg [] sep = []"
| "string_agg [x] sep = x"
| "string_agg (x # y # ys) sep = x @ sep @ string_agg (y # ys) sep"

definition rule_conditions_text :: "db \<Rightarrow> warningRule_rec \<Rightarrow> string" where
  \<comment> \<open>the aggregate column \<open>conditions\<close> of \<open>list_rules\<close>, WITHIN GROUP (ORDER BY c.id)\<close>
  "rule_conditions_text d r =
     string_agg
       [condition_text c n v.
          c \<leftarrow> left_join (\<lambda>c. wc_rule_id c = wr_id r) (sort_key wc_id (warningRuleCondition d)),
          n \<leftarrow> join_node d c,
          v \<leftarrow> join_value d c]
       '' AND ''"

text \<open>
  How the NULL of the text column \<open>dataSourceFilter\<close> reaches the evaluator depends on the
  pandas that runs the page, and the repository names no version. A pandas that keeps text
  as Python objects (before version 3) hands a NULL over as \<open>None\<close>. A pandas that infers
  its \<open>str\<close> dtype for a column holding text (from version 3 on) hands it over as the
  float NaN; a column with NULLs only stays a column of \<open>None\<close>. The model takes the
  behaviour as a parameter, \<open>str_dtype\<close>, of every function that reads the rules. The
  text columns of the conditions are not read by the evaluator.
\<close>

definition filter_null :: "bool \<Rightarrow> db \<Rightarrow> cell" where
  \<comment> \<open>a NULL in the column \<open>dataSourceFilter\<close> of the data frame of \<open>list_rules\<close>\<close>
  "filter_null str_dtype d =
     (if str_dtype \<and> (\<exists>r\<in>set (warningRule d). wr_dataSourceFilter r \<noteq> None)
      then NaNC else NoneC)"

definition rule_row :: "bool \<Rightarrow> db \<Rightarrow> warningRule_rec \<Rightarrow> row" where
  \<comment> \<open>the SELECT list of \<open>list_rules\<close> (lines 83-88): r.id, r.name, r.severity, r.isActive,
      r.dataSourceFilter, r.dateAdded and the aggregate; r.message is not selected\<close>
  "rule_row str_dtype d r =
     [(''id'', IntC (wr_id r)),
      (''name'', StrC (wr_name r)),
      (''severity'', StrC (wr_severity r)),
      (''isActive'', BoolC (wr_isActive r)),
      (''dataSourceFilter'', (case wr_dataSourceFilter r of None \<Rightarrow> filter_null str_dtype d | Some f \<Rightarrow> StrC f)),
      (''dateAdded'', TimeC (wr_dateAdded r)),
      (''conditions'', StrC (rule_conditions_text d r))]"

definition list_rules :: "bool \<Rightarrow> db \<Rightarrow> row list \<times> db" where
  \<comment> \<open>lines 81-97: one row for each rule (GROUP BY the key r.id and the columns it
      determines), ORDER BY r.dateAdded DESC, r.id DESC\<close>
  "list_rules str_dtype d =
     (map (rule_row str_dtype d) (sort_key (\<lambda>r. (- wr_dateAdded r, - wr_id r)) (warningRule d)), d)"

definition cond_row ::
  "warningRuleCondition_rec \<Rightarrow> pillarNode_rec \<Rightarrow> pillarNodeValue_rec option \<Rightarrow> row"
where
  \<comment> \<open>the SELECT list of \<open>fetch_rule_conditions\<close> (line 105)\<close>
  "cond_row c n v =
     [(''id'', IntC (wc_id c)),
      (''rule_id'', IntC (wc_rule_id c)),
      (''pillarNode_id'', IntC (wc_pillarNode_id c)),
      (''pillarNode'', StrC (pn_pillarNode n)),
      (''operator'', StrC (wc_operator c)),
      (''pillarNodeValue_id'', (case wc_pillarNodeValue_id c of None \<Rightarrow> NoneC | Some i \<Rightarrow> IntC i)),
      (''pillarNodeValue'', (case v of None \<Rightarrow> NoneC | Some v' \<Rightarrow> StrC (pv_pillarNodeValue v')))]"

definition fetch_rule_conditions :: "int \<Rightarrow> db \<Rightarrow> row list \<times> db" where
  \<comment> \<open>lines 103-113: the conditions of one rule, JOIN pillarNode, LEFT JOIN
      pillarNodeValue, ORDER BY c.id\<close>
  "fetch_rule_conditions rule_id d =
     ([cond_row c n v.
         c \<leftarrow> sort_key wc_id (filter (\<lambda>c. wc_rule_id c = rule_id) (warningRuleCondition d)),
         n \<leftarrow> filter (\<lambda>n. pn_id n = wc_pillarNode_id c) (pillarNode d),
         v \<leftarrow> left_join (\<lambda>v. Some (pv_id v) = wc_pillarNodeValue_id c) (pillarNodeValue d)],
      d)"

subsection \<open>The evaluator\<close>

definition cond_step :: "prefs \<Rightarrow> row \<Rightarrow> error + bool" where
  \<comment> \<open>lines 182-194, one pass of the inner loop: the value of \<open>ok\<close> after it. \<open>ok\<close> is
      True when the pass starts (line 195 leaves the loop otherwise), so \<open>ok &= b\<close> leaves b.\<close>
  "cond_step prefs c =
     bindE (bindE (getattr c ''pillarNode_id'') py_int) (\<lambda>node.
     let val = prefs node in
     bindE (bindE (getattr c ''operator'') py_upper) (\<lambda>op.
     bindE (getattr c ''pillarNodeValue_id'') (\<lambda>tc.
     bindE (if notna tc then bindE (py_int tc) (\<lambda>i. Inr (Some i)) else Inr None) (\<lambda>target.
       if op = ''='' then Inr (val = target)
       else if op = ''!='' \<or> op = ''<>'' then Inr (val = None \<or> val \<noteq> target)
       else if op = ''IS NULL'' then Inr (val = None)
       else if op = ''IS NOT NULL'' then Inr (val \<noteq> None)
       else Inr False))))"

fun conds_loop :: "prefs \<Rightarrow> row list \<Rightarrow> error + bool" where
  \<comment> \<open>lines 180-196: \<open>ok\<close> when the loop over the conditions ends\<close>
  "conds_loop prefs [] = Inr True"
| "conds_loop prefs (c # cs) =
     bindE (cond_step prefs c) (\<lambda>ok. if \<not> ok then Inr False else conds_loop prefs cs)"

definition skip_rule :: "string \<Rightarrow> row \<Rightarrow> error + bool" where
  \<comment> \<open>lines 175-178: whether one of the two \<open>continue\<close> statements is taken\<close>
  "skip_rule data_source r =
     bindE (getattr r ''isActive'') (\<lambda>a.
       if \<not> truthy a then Inr True
       else bindE (getattr r ''dataSourceFilter'') (\<lambda>f.
         Inr (truthy f \<and> f \<noteq> StrC data_source)))"

definition make_hit :: "row \<Rightarrow> error + row" where
  \<comment> \<open>line 198: the dict display, its values read from left to right\<close>
  "make_hit r =
     bindE (getattr r ''id'') (\<lambda>i.
     bindE (getattr r ''name'') (\<lambda>n.
     bindE (getattr r ''severity'') (\<lambda>s.
     bindE (getattr r ''message'') (\<lambda>m.
       Inr [(''id'', i), (''name'', n), (''severity'', s), (''message'', m)]))))"

definition rule_body :: "string \<Rightarrow> prefs \<Rightarrow> row \<Rightarrow> db \<Rightarrow> (error + row option) \<times> db" where
  \<comment> \<open>lines 175-198, one pass of the outer loop: the hit it appends, if any\<close>
  "rule_body data_source prefs r d =
     (case skip_rule data_source r of
        Inl e \<Rightarrow> (Inl e, d)
      | Inr True \<Rightarrow> (Inr None, d)
      | Inr False \<Rightarrow>
          (case bindE (getattr r ''id'') py_int of
             Inl e \<Rightarrow> (Inl e, d)
           | Inr rid \<Rightarrow>
               (case fetch_rule_conditions rid d of
                  (conds, d') \<Rightarrow>
                    (case conds_loop prefs conds of
                       Inl e \<Rightarrow> (Inl e, d')
                     | Inr False \<Rightarrow> (Inr None, d')
                     | Inr True \<Rightarrow>
                         (case make_hit r of
                            Inl e \<Rightarrow> (Inl e, d')
                          | Inr h \<Rightarrow> (Inr (Some h), d'))))))"

fun rules_loop ::
  "string \<Rightarrow> prefs \<Rightarrow> row list \<Rightarrow> row list \<Rightarrow> db \<Rightarrow> (error + row list) \<times> db"
where
  \<comment> \<open>lines 174-198: the loop over the rules, \<open>hits\<close> growing at its end\<close>
  "rules_loop data_source prefs [] hits d = (Inr hits, d)"
| "rules_loop data_source prefs (r # rs) hits d =
     (case rule_body data_source prefs r d of
        (Inl e, d') \<Rightarrow> (Inl e, d')
      | (Inr None, d') \<Rightarrow> rules_loop data_source prefs rs hits d'
      | (Inr (Some h), d') \<Rightarrow> rules_loop data_source prefs rs (hits @ [h]) d')"

definition evaluate_rules ::
  "bool \<Rightarrow> string \<Rightarrow> string \<Rightarrow> db \<Rightarrow> (error + row list) \<times> db"
where
  \<comment> \<open>lines 169-199\<close>
  "evaluate_rules str_dtype user_name data_source d =
     (case fetch_user_pref_map user_name data_source d of
        (prefs, d1) \<Rightarrow>
          (case list_rules str_dtype d1 of
             (rules, d2) \<Rightarrow> rules_loop data_source prefs rules [] d2))"

definition fires :: "bool \<Rightarrow> string \<Rightarrow> prefs \<Rightarrow> db \<Rightarrow> warningRule_rec \<Rightarrow> bool" where
  \<comment> \<open>line 197 finds \<open>ok\<close> true for the rule: neither \<open>continue\<close> was taken and the loop
      over its conditions ended with \<open>ok\<close> true\<close>
  "fires str_dtype data_source prefs d r \<longleftrightarrow>
     skip_rule data_source (rule_row str_dtype d r) = Inr False \<and>
     conds_loop prefs (fst (fetch_rule_conditions (wr_id r) d)) = Inr True"

abbreviation selection :: "db \<Rightarrow> string \<Rightarrow> string \<Rightarrow> int \<Rightarrow> int option" where
  \<comment> \<open>line 182: \<open>prefs.get(node)\<close> on the map loaded for the user and the data source\<close>
  "selection d user_name data_source node \<equiv> fst (fetch_user_pref_map user_name data_source d) node"

subsection \<open>Example stores\<close>

text \<open>
  Two nodes, three values, the selections of one user for one data source, and rules in the
  manner of the page's caption: R1 and R2 unscoped, R3 scoped to one data source, R4
  switched off and without conditions, R5 with an operator the evaluator does not know.
\<close>

definition node10 :: pillarNode_rec where
  "node10 = \<lparr>pn_id = 10, pn_pillarNode = ''Source Format''\<rparr>"

definition node20 :: pillarNode_rec where
  "node20 = \<lparr>pn_id = 20, pn_pillarNode = ''Target Platform''\<rparr>"

definition cond_eq :: warningRuleCondition_rec where
  "cond_eq = \<lparr>wc_id = 1, wc_rule_id = 1, wc_pillarNode_id = 10, wc_operator = ''='',
              wc_pillarNodeValue_id = Some 5\<rparr>"

definition cond_neq :: warningRuleCondition_rec where
  "cond_neq = \<lparr>wc_id = 3, wc_rule_id = 2, wc_pillarNode_id = 20, wc_operator = ''!='',
               wc_pillarNodeValue_id = Some 7\<rparr>"

definition cond_is_null :: warningRuleCondition_rec where
  "cond_is_null = \<lparr>wc_id = 4, wc_rule_id = 3, wc_pillarNode_id = 20, wc_operator = ''IS NULL'',
                   wc_pillarNodeValue_id = None\<rparr>"

definition cond_is_not_null :: warningRuleCondition_rec where
  "cond_is_not_null = \<lparr>wc_id = 5, wc_rule_id = 3, wc_pillarNode_id = 20,
                       wc_operator = ''IS NOT NULL'', wc_pillarNodeValue_id = None\<rparr>"

definition cond_like :: warningRuleCondition_rec where
  "cond_like = \<lparr>wc_id = 6, wc_rule_id = 5, wc_pillarNode_id = 10, wc_operator = ''LIKE'',
                wc_pillarNodeValue_id = Some 5\<rparr>"

definition rule1 :: warningRule_rec where
  "rule1 = \<lparr>wr_id = 1, wr_name = ''R1'', wr_message = ''Add a staging step.'',
            wr_severity = ''Warning'', wr_isActive = True, wr_dataSourceFilter = None,
            wr_dateAdded = 1\<rparr>"

definition rule3 :: warningRule_rec where
  "rule3 = \<lparr>wr_id = 3, wr_name = ''R3'', wr_message = ''Pick a target.'',
            wr_severity = ''Info'', wr_isActive = True,
            wr_dataSourceFilter = Some ''Salesforce API'', wr_dateAdded = 3\<rparr>"

definition rule4 :: warningRule_rec where
  "rule4 = \<lparr>wr_id = 4, wr_name = ''R4'', wr_message = ''Switched off.'',
            wr_severity = ''Error'', wr_isActive = False, wr_dataSourceFilter = None,
            wr_dateAdded = 4\<rparr>"

definition rule5 :: warningRule_rec where
  "rule5 = \<lparr>wr_id = 5, wr_name = ''R5'', wr_message = ''Pattern rule.'',
            wr_severity = ''Info'', wr_isActive = True, wr_dataSourceFilter = None,
            wr_dateAdded = 5\<rparr>"

definition store :: db where
  "store =
     \<lparr>pillarNode = [node10, node20],
      pillarNodeValue =
        [\<lparr>pv_id = 5, pv_pillarNodeValue = ''Unstructured''\<rparr>,
         \<lparr>pv_id = 7, pv_pillarNodeValue = ''Structured''\<rparr>,
         \<lparr>pv_id = 9, pv_pillarNodeValue = ''Lake''\<rparr>],
      userNodePreference =
        [\<lparr>up_userName = ''alice'', up_pillarNode_id = 10, up_pillarNodeValue_id = 5,
          up_dataSource = ''Salesforce API'', up_dateAdded = 1\<rparr>,
         \<lparr>up_userName = ''alice'', up_pillarNode_id = 20, up_pillarNodeValue_id = 9,
          up_dataSource = ''Salesforce API'', up_dateAdded = 2\<rparr>],
      warningRule =
        [rule1,
         \<lparr>wr_id = 2, wr_name = ''R2'', wr_message = ''Check the target.'',
          wr_severity = ''Error'', wr_isActive = True, wr_dataSourceFilter = Some [],
          wr_dateAdded = 2\<rparr>,
         rule3, rule4, rule5],
      warningRuleCondition =
        [cond_eq,
         \<lparr>wc_id = 2, wc_rule_id = 2, wc_pillarNode_id = 10, wc_operator = ''='',
          wc_pillarNodeValue_id = Some 5\<rparr>,
         cond_neq, cond_is_null, cond_is_not_null, cond_like]\<rparr>"

text \<open>A store whose only rule is active, unscoped and has no condition.\<close>

definition rule_always :: warningRule_rec where
  "rule_always = \<lparr>wr_id = 1, wr_name = ''Always'', wr_message = ''Shown to everybody.'',
                  wr_severity = ''Info'', wr_isActive = True, wr_dataSourceFilter = None,
                  wr_dateAdded = 1\<rparr>"

definition store_always :: db where
  "store_always =
     \<lparr>pillarNode = [node10], pillarNodeValue = [], userNodePreference = [],
      warningRule = [rule_always], warningRuleCondition = []\<rparr>"

text \<open>
  A store with conditions the page's forms do not write, as a direct INSERT leaves them:
  \<open>=\<close> and \<open>!=\<close> without a value, and an operator in lower case. Nobody has stored a
  selection.
\<close>

definition cond_eq_novalue :: warningRuleCondition_rec where
  "cond_eq_novalue = \<lparr>wc_id = 1, wc_rule_id = 1, wc_pillarNode_id = 10, wc_operator = ''='',
                      wc_pillarNodeValue_id = None\<rparr>"

definition cond_neq_novalue :: warningRuleCondition_rec where
  "cond_neq_novalue = \<lparr>wc_id = 2, wc_rule_id = 2, wc_pillarNode_id = 10, wc_operator = ''!='',
                       wc_pillarNodeValue_id = None\<rparr>"

definition cond_lower :: warningRuleCondition_rec where
  "cond_lower = \<lparr>wc_id = 3, wc_rule_id = 3, wc_pillarNode_id = 10, wc_operator = ''is null'',
                 wc_pillarNodeValue_id = None\<rparr>"

definition store_odd :: db where
  "store_odd =
     \<lparr>pillarNode = [node10], pillarNodeValue = [], userNodePreference = [],
      warningRule =
        [rule1,
         \<lparr>wr_id = 2, wr_name = ''R2'', wr_message = ''Check the target.'',
          wr_severity = ''Error'', wr_isActive = True, wr_dataSourceFilter = None,
          wr_dateAdded = 2\<rparr>,
         \<lparr>wr_id = 3, wr_name = ''R3'', wr_message = ''Pick a target.'',
          wr_severity = ''Info'', wr_isActive = True, wr_dataSourceFilter = None,
          wr_dateAdded = 3\<rparr>],
      warningRuleCondition = [cond_eq_novalue, cond_neq_novalue, cond_lower]\<rparr>"

section \<open>Properties\<close>

subsection \<open>Upper-casing\<close>



lemma upper_ops:
  "upper ''='' = ''=''"
  "upper ''!='' = ''!=''"
  "upper ''<>'' = ''<>''"
  "upper ''IS NULL'' = ''IS NULL''"
  "upper ''IS NOT NULL'' = ''IS NOT NULL''"
  by code_simp+


subsection \<open>One condition\<close>

lemma getattr_cond_row:
  "getattr (cond_row c n v) ''pillarNode_id'' = Inr (IntC (wc_pillarNode_id c))"
  "getattr (cond_row c n v) ''operator'' = Inr (StrC (wc_operator c))"
  "getattr (cond_row c n v) ''pillarNodeValue_id'' =
     Inr (case wc_pillarNodeValue_id c of None \<Rightarrow> NoneC | Some i \<Rightarrow> IntC i)"
  by (simp_all add: getattr_def cond_row_def)

text \<open>On a row of \<open>fetch_rule_conditions\<close> the pass raises nothing, and its outcome is
  read off the condition's record.\<close>

lemma cond_step_cond_row:
  "cond_step prefs (cond_row c n v) =
     Inr (if upper (wc_operator c) = ''=''
            then prefs (wc_pillarNode_id c) = wc_pillarNodeValue_id c
          else if upper (wc_operator c) = ''!='' \<or> upper (wc_operator c) = ''<>''
            then prefs (wc_pillarNode_id c) = None
               \<or> prefs (wc_pillarNode_id c) \<noteq> wc_pillarNodeValue_id c
          else if upper (wc_operator c) = ''IS NULL'' then prefs (wc_pillarNode_id c) = None
          else if upper (wc_operator c) = ''IS NOT NULL'' then prefs (wc_pillarNode_id c) \<noteq> None
          else False)"
  by (cases "wc_pillarNodeValue_id c")
     (simp_all add: cond_step_def getattr_cond_row bindE_def Let_def)

subsection \<open>The two loops\<close>

lemma conds_loop_all:
  "\<forall>c\<in>set cs. \<exists>b. cond_step prefs c = Inr b \<Longrightarrow>
     conds_loop prefs cs = Inr (\<forall>c\<in>set cs. cond_step prefs c = Inr True)"
  by (induction cs) (auto simp: bindE_def)

lemma fetch_rule_conditions_rows:
  "r \<in> set (fst (fetch_rule_conditions rid d)) \<Longrightarrow>
     \<exists>c n v. r = cond_row c n v \<and> c \<in> set (warningRuleCondition d) \<and> wc_rule_id c = rid"
  by (auto simp: fetch_rule_conditions_def)

lemma fetch_rule_conditions_db: "snd (fetch_rule_conditions rid d) = d"
  by (simp add: fetch_rule_conditions_def)

lemma conds_loop_fetched:
  "conds_loop prefs (fst (fetch_rule_conditions rid d)) =
     Inr (\<forall>c\<in>set (fst (fetch_rule_conditions rid d)). cond_step prefs c = Inr True)"
proof (rule conds_loop_all, rule ballI)
  fix c assume "c \<in> set (fst (fetch_rule_conditions rid d))"
  then obtain c' n v where "c = cond_row c' n v"
    using fetch_rule_conditions_rows by blast
  then show "\<exists>b. cond_step prefs c = Inr b"
    by (simp add: cond_step_cond_row)
qed

lemma make_hit_rule_row: "make_hit (rule_row sd d r) = Inl AttributeError"
  by (simp add: make_hit_def rule_row_def getattr_def bindE_def)

lemma skip_rule_rule_row:
  "skip_rule ds (rule_row sd d r) =
     Inr (\<not> wr_isActive r
          \<or> (\<exists>f. wr_dataSourceFilter r = Some f \<and> f \<noteq> [] \<and> f \<noteq> ds)
          \<or> (wr_dataSourceFilter r = None \<and> filter_null sd d = NaNC))"
  by (cases "wr_dataSourceFilter r")
     (auto simp: skip_rule_def rule_row_def getattr_def bindE_def filter_null_def)

lemma rule_id_rule_row: "bindE (getattr (rule_row sd d r) ''id'') py_int = Inr (wr_id r)"
  by (simp add: rule_row_def getattr_def bindE_def)

subsection \<open>The preference map\<close>

text \<open>A node has no entry in the map exactly when the table has no row for the user, the
  data source and the node.\<close>

lemma fold_upd_None:
  "fold (\<lambda>r m. m(fst r \<mapsto> snd r)) rows m k = None \<longleftrightarrow> m k = None \<and> k \<notin> fst ` set rows"
  by (induction rows arbitrary: m) auto

lemma selection_None_iff:
  "selection d u ds node = None \<longleftrightarrow>
     \<not> (\<exists>p\<in>set (userNodePreference d).
           up_userName p = u \<and> up_dataSource p = ds \<and> up_pillarNode_id p = node)"
  by (auto simp: fetch_user_pref_map_def Let_def fold_upd_None image_iff)

subsection \<open>The store is only read\<close>

lemma fetch_user_pref_map_db: "snd (fetch_user_pref_map u ds d) = d"
  by (simp add: fetch_user_pref_map_def Let_def)

lemma list_rules_db: "snd (list_rules sd d) = d"
  by (simp add: list_rules_def)

lemma rule_body_db: "snd (rule_body ds prefs r d) = d"
  by (auto simp: rule_body_def fetch_rule_conditions_def split: sum.splits bool.splits prod.splits)

lemma rules_loop_db: "snd (rules_loop ds prefs rs hits d) = d"
proof (induction rs arbitrary: hits)
  case Nil
  show ?case by simp
next
  case (Cons r rs)
  obtain res d' where rb: "rule_body ds prefs r d = (res, d')"
    by (cases "rule_body ds prefs r d")
  with rule_body_db [of ds prefs r d] have "d' = d" by simp
  with rb Cons show ?case
    by (simp split: sum.splits option.splits)
qed

lemma evaluate_rules_db: "snd (evaluate_rules sd u ds d) = d"
  by (simp add: evaluate_rules_def fetch_user_pref_map_def list_rules_def rules_loop_db Let_def)

subsection \<open>Where the hits come from\<close>

lemma rule_body_skipped: "skip_rule ds r = Inr True \<Longrightarrow> rule_body ds prefs r d = (Inr None, d)"
  by (simp add: rule_body_def)

lemma rule_body_hit:
  "rule_body ds prefs r d = (Inr (Some h), d') \<Longrightarrow> skip_rule ds r = Inr False \<and> make_hit r = Inr h"
  by (auto simp: rule_body_def split: sum.splits bool.splits prod.splits)

lemma rules_loop_hits:
  "rules_loop ds prefs rs hits d = (Inr hits', d') \<Longrightarrow> h \<in> set hits' \<Longrightarrow>
     h \<in> set hits \<or> (\<exists>r\<in>set rs. skip_rule ds r = Inr False \<and> make_hit r = Inr h)"
proof (induction rs arbitrary: hits d)
  case Nil
  then show ?case by simp
next
  case (Cons r rs)
  obtain res d1 where rb: "rule_body ds prefs r d = (res, d1)"
    by (cases "rule_body ds prefs r d")
  show ?case
  proof (cases res)
    case (Inl e)
    with rb Cons.prems show ?thesis by simp
  next
    case (Inr o1)
    show ?thesis
    proof (cases o1)
      case None
      with Inr rb Cons.prems have "rules_loop ds prefs rs hits d1 = (Inr hits', d')" by simp
      from Cons.IH [OF this Cons.prems(2)] show ?thesis by auto
    next
      case (Some h1)
      with Inr rb Cons.prems have "rules_loop ds prefs rs (hits @ [h1]) d1 = (Inr hits', d')"
        by simp
      from Cons.IH [OF this Cons.prems(2)] rule_body_hit [of ds prefs r d h1 d1] rb Inr Some
      show ?thesis by auto
    qed
  qed
qed

subsection \<open>The outcome on the rows of \<open>list_rules\<close>\<close>

text \<open>
  \<open>list_rules\<close> does not select the column \<open>message\<close>, so \<open>make_hit\<close> raises
  AttributeError on every one of its rows (\<open>make_hit_rule_row\<close>): the evaluation of the
  page ends with that exception as soon as one rule fires, and returns the empty list of
  hits when none does.
\<close>

lemma rule_body_rule_row:
  "rule_body ds prefs (rule_row sd d r) d =
     (if fires sd ds prefs d r then Inl AttributeError else Inr None, d)"
  using conds_loop_fetched [of prefs "wr_id r" d] fetch_rule_conditions_db [of "wr_id r" d]
  by (cases "fetch_rule_conditions (wr_id r) d")
     (auto simp: rule_body_def fires_def skip_rule_rule_row rule_id_rule_row make_hit_rule_row
        split: sum.splits bool.splits)

lemma rules_loop_rule_rows:
  "rules_loop ds prefs (map (rule_row sd d) rs) hits d =
     (if \<exists>r\<in>set rs. fires sd ds prefs d r then Inl AttributeError else Inr hits, d)"
  by (induction rs) (simp_all add: rule_body_rule_row)

lemma evaluate_rules_result:
  "evaluate_rules sd u ds d =
     (if \<exists>r\<in>set (warningRule d). fires sd ds (fst (fetch_user_pref_map u ds d)) d r
      then Inl AttributeError else Inr [], d)"
  by (simp add: evaluate_rules_def list_rules_def rules_loop_rule_rows fetch_user_pref_map_def Let_def)

lemma evaluate_rules_hits: "fst (evaluate_rules sd u ds d) = Inr hits \<Longrightarrow> hits = []"
  by (simp add: evaluate_rules_result split: if_splits)

section \<open>The claims\<close>

subsection \<open>C1: the operator \<open>!=\<close>\<close>

text \<open>
  Claim C1. A condition with the operator \<open>!=\<close> (or \<open><>\<close>) and the target value \<open>V\<close>,
  evaluated for a user and a data source, matches when the user has stored no selection
  for the condition's node, matches when the stored selection is a value other than \<open>V\<close>,
  and does not match when the stored selection is \<open>V\<close>.
\<close>

theorem neq_matches_unless_equal:
  assumes "wc_operator c = ''!='' \<or> wc_operator c = ''<>''"
    and "wc_pillarNodeValue_id c = Some V"
  shows "(selection d user_name data_source (wc_pillarNode_id c) = None \<longrightarrow>
            cond_step (fst (fetch_user_pref_map user_name data_source d)) (cond_row c n v) = Inr True)
       \<and> (\<forall>w. selection d user_name data_source (wc_pillarNode_id c) = Some w \<and> w \<noteq> V \<longrightarrow>
            cond_step (fst (fetch_user_pref_map user_name data_source d)) (cond_row c n v) = Inr True)
       \<and> (selection d user_name data_source (wc_pillarNode_id c) = Some V \<longrightarrow>
            cond_step (fst (fetch_user_pref_map user_name data_source d)) (cond_row c n v) = Inr False)"
  using assms by (auto simp: cond_step_cond_row upper_ops)

text \<open>
  In the example store alice has selected the value 9 for node 20, and the condition
  \<open>node 20 != 7\<close> matches.
\<close>

theorem neq_matches_unless_equal_witness:
  "(wc_operator cond_neq = ''!='' \<or> wc_operator cond_neq = ''<>'')
   \<and> wc_pillarNodeValue_id cond_neq = Some 7
   \<and> selection store ''alice'' ''Salesforce API'' (wc_pillarNode_id cond_neq) = Some 9
   \<and> cond_step (fst (fetch_user_pref_map ''alice'' ''Salesforce API'' store))
        (cond_row cond_neq node20 None) = Inr True"
proof -
  have h1: "wc_operator cond_neq = ''!='' \<or> wc_operator cond_neq = ''<>''"
    by (simp add: cond_neq_def)
  have h2: "wc_pillarNodeValue_id cond_neq = Some 7"
    by (simp add: cond_neq_def)
  have h3: "selection store ''alice'' ''Salesforce API'' (wc_pillarNode_id cond_neq) = Some 9"
    by code_simp
  from neq_matches_unless_equal [OF h1 h2, where d = store and user_name = "''alice''"
      and data_source = "''Salesforce API''" and n = node20 and v = None]
  have "cond_step (fst (fetch_user_pref_map ''alice'' ''Salesforce API'' store))
          (cond_row cond_neq node20 None) = Inr True"
    using h3 by simp
  with h1 h2 h3 show ?thesis by blast
qed

subsection \<open>C2: the operator \<open>=\<close>\<close>

text \<open>
  Claim C2, as the evaluator has it. Line 186 compares the result of \<open>prefs.get\<close> with
  the target, and both may be \<open>None\<close>: a condition with the operator \<open>=\<close> matches if and
  only if the stored selection equals the target value, a missing selection being equal
  to a missing target value. So with no selection stored the condition matches no target
  value that is present, and it matches when the condition records no target value.
\<close>

theorem eq_compares_selection_with_target:
  assumes "wc_operator c = ''=''"
  shows "cond_step (fst (fetch_user_pref_map user_name data_source d)) (cond_row c n v)
           = Inr (selection d user_name data_source (wc_pillarNode_id c) = wc_pillarNodeValue_id c)
       \<and> (selection d user_name data_source (wc_pillarNode_id c) = None \<longrightarrow>
            cond_step (fst (fetch_user_pref_map user_name data_source d)) (cond_row c n v)
              = Inr (wc_pillarNodeValue_id c = None))"
  using assms by (auto simp: cond_step_cond_row upper_ops)

text \<open>
  In the example store alice has selected the value 5 for node 10, the target of the
  condition \<open>node 10 = 5\<close>.
\<close>

theorem eq_compares_selection_with_target_witness:
  "wc_operator cond_eq = ''=''
   \<and> selection store ''alice'' ''Salesforce API'' (wc_pillarNode_id cond_eq) = Some 5
   \<and> wc_pillarNodeValue_id cond_eq = Some 5
   \<and> cond_step (fst (fetch_user_pref_map ''alice'' ''Salesforce API'' store))
        (cond_row cond_eq node10 None) = Inr True"
proof -
  have h: "wc_operator cond_eq = ''=''" by (simp add: cond_eq_def)
  have sel: "selection store ''alice'' ''Salesforce API'' (wc_pillarNode_id cond_eq) = Some 5"
    by code_simp
  have tgt: "wc_pillarNodeValue_id cond_eq = Some 5" by (simp add: cond_eq_def)
  from eq_compares_selection_with_target [OF h, where d = store and user_name = "''alice''"
      and data_source = "''Salesforce API''" and n = node10 and v = None] sel tgt
  have "cond_step (fst (fetch_user_pref_map ''alice'' ''Salesforce API'' store))
          (cond_row cond_eq node10 None) = Inr True"
    by simp
  with h sel tgt show ?thesis by blast
qed

text \<open>
  Claim C2 as it is written says that \<open>=\<close> never matches when no selection is stored,
  also for a missing target value. It fails there: the rule 1 of \<open>store_odd\<close> has the one
  condition \<open>node 10 = NULL\<close>, nobody has a selection, and the condition matches.
\<close>

theorem eq_without_value_matches_unselected:
  "wc_operator cond_eq_novalue = ''=''
   \<and> wc_pillarNodeValue_id cond_eq_novalue = None
   \<and> selection store_odd ''alice'' ''Salesforce API'' (wc_pillarNode_id cond_eq_novalue) = None
   \<and> fst (fetch_rule_conditions 1 store_odd) = [cond_row cond_eq_novalue node10 None]
   \<and> cond_step (fst (fetch_user_pref_map ''alice'' ''Salesforce API'' store_odd))
        (cond_row cond_eq_novalue node10 None) = Inr True"
  by code_simp

subsection \<open>C3: conditions without a target value\<close>

text \<open>
  Claim C3, as the evaluator has it. A condition with the operator \<open>=\<close> or \<open>!=\<close>
  whose target value is missing is not set aside: lines 186 and 188 compare with \<open>None\<close>
  as with any target. With \<open>=\<close> it matches exactly when the node has no stored selection,
  with \<open>!=\<close> it matches always, and evaluating it raises nothing.
\<close>

theorem valueless_condition_is_compared:
  assumes "wc_pillarNodeValue_id c = None"
  shows "(wc_operator c = ''='' \<longrightarrow>
            cond_step (fst (fetch_user_pref_map user_name data_source d)) (cond_row c n v)
              = Inr (selection d user_name data_source (wc_pillarNode_id c) = None))
       \<and> (wc_operator c = ''!='' \<longrightarrow>
            cond_step (fst (fetch_user_pref_map user_name data_source d)) (cond_row c n v) = Inr True)"
  using assms by (auto simp: cond_step_cond_row upper_ops)

text \<open>
  The condition \<open>node 10 = NULL\<close> of \<open>store_odd\<close>, with no selection stored.
\<close>

theorem valueless_condition_is_compared_witness:
  "wc_pillarNodeValue_id cond_eq_novalue = None \<and> wc_operator cond_eq_novalue = ''=''
   \<and> selection store_odd ''alice'' ''Salesforce API'' (wc_pillarNode_id cond_eq_novalue) = None
   \<and> cond_step (fst (fetch_user_pref_map ''alice'' ''Salesforce API'' store_odd))
        (cond_row cond_eq_novalue node10 None) = Inr True"
proof -
  have h: "wc_pillarNodeValue_id cond_eq_novalue = None" by (simp add: cond_eq_novalue_def)
  have op: "wc_operator cond_eq_novalue = ''=''" by (simp add: cond_eq_novalue_def)
  have sel: "selection store_odd ''alice'' ''Salesforce API'' (wc_pillarNode_id cond_eq_novalue) = None"
    by code_simp
  from valueless_condition_is_compared [OF h, where d = store_odd and user_name = "''alice''"
      and data_source = "''Salesforce API''" and n = node10 and v = None] op sel
  have "cond_step (fst (fetch_user_pref_map ''alice'' ''Salesforce API'' store_odd))
          (cond_row cond_eq_novalue node10 None) = Inr True"
    by simp
  with h op sel show ?thesis by blast
qed

text \<open>
  Claim C3 as it is written says that such a condition never matches. It fails for the
  rule 2 of \<open>store_odd\<close>, whose one condition is \<open>node 10 != NULL\<close>: the condition
  matches and the loop over the conditions ends with \<open>ok\<close> true.
\<close>

theorem neq_without_value_matches:
  "wc_operator cond_neq_novalue = ''!=''
   \<and> wc_pillarNodeValue_id cond_neq_novalue = None
   \<and> fst (fetch_rule_conditions 2 store_odd) = [cond_row cond_neq_novalue node10 None]
   \<and> cond_step (fst (fetch_user_pref_map ''alice'' ''Salesforce API'' store_odd))
        (cond_row cond_neq_novalue node10 None) = Inr True
   \<and> conds_loop (fst (fetch_user_pref_map ''alice'' ''Salesforce API'' store_odd))
        (fst (fetch_rule_conditions 2 store_odd)) = Inr True"
  by code_simp

subsection \<open>C4: empty arguments\<close>




subsection \<open>C5: a rule without conditions\<close>

text \<open>
  Claim C5 says that an active rule in scope whose list of conditions is empty is in the
  list of hits. The loop does find \<open>ok\<close> true for such a rule, but line 198 then reads
  \<open>r.message\<close> from a row of \<open>list_rules\<close>, which has no such column: in the store whose
  only rule is active, unscoped and without conditions, the evaluation ends with
  AttributeError instead of a hit. No rule of that store has a filter, so the NULL filter
  is \<open>None\<close> whatever \<open>str_dtype\<close> is.
\<close>

theorem vacuous_rule_raises:
  "wr_isActive rule_always \<and> wr_dataSourceFilter rule_always = None
   \<and> filter_null True store_always = NoneC
   \<and> fst (fetch_rule_conditions (wr_id rule_always) store_always) = []
   \<and> make_hit (rule_row False store_always rule_always) = Inl AttributeError
   \<and> evaluate_rules False ''alice'' ''Salesforce API'' store_always
        = (Inl AttributeError, store_always)
   \<and> evaluate_rules True ''alice'' ''Salesforce API'' store_always
        = (Inl AttributeError, store_always)"
  by code_simp

subsection \<open>C6: inactive rules and the scope of a rule\<close>

text \<open>
  What lines 175-178 do, however the page is run. A rule whose \<open>isActive\<close> is false, and a
  rule whose \<open>dataSourceFilter\<close> is not empty and differs from the data source asked for,
  is passed over whatever its conditions and the preferences are: its pass of the loop
  appends no hit and raises nothing. A hit is only ever made from a row that got past both
  guards, for any data frame of rules, and so such a rule is in no list of hits that
  \<open>evaluate_rules\<close> returns. An active rule gets past the guards for every data source
  when its filter is the empty string, and when its filter is unset and arrives as
  \<open>None\<close>; an unset filter that arrives as NaN stops the rule for every data source.
\<close>

lemma skipped_rules_never_hit:
  "(\<not> wr_isActive r \<longrightarrow>
       rule_body data_source prefs (rule_row str_dtype d r) d' = (Inr None, d'))
   \<and> (\<forall>f. wr_dataSourceFilter r = Some f \<and> f \<noteq> [] \<and> f \<noteq> data_source \<longrightarrow>
          rule_body data_source prefs (rule_row str_dtype d r) d' = (Inr None, d'))
   \<and> (wr_isActive r
        \<and> (wr_dataSourceFilter r = Some []
             \<or> (wr_dataSourceFilter r = None \<and> filter_null str_dtype d = NoneC)) \<longrightarrow>
          skip_rule data_source (rule_row str_dtype d r) = Inr False)
   \<and> (wr_dataSourceFilter r = None \<and> filter_null str_dtype d = NaNC \<longrightarrow>
          rule_body data_source prefs (rule_row str_dtype d r) d' = (Inr None, d'))
   \<and> (\<forall>rules hits d'' h.
          rules_loop data_source prefs rules [] d' = (Inr hits, d'') \<and> h \<in> set hits \<longrightarrow>
          (\<exists>r'\<in>set rules. skip_rule data_source r' = Inr False \<and> make_hit r' = Inr h))
   \<and> (\<forall>hits. r \<in> set (warningRule d)
          \<and> (\<not> wr_isActive r
               \<or> (\<exists>f. wr_dataSourceFilter r = Some f \<and> f \<noteq> [] \<and> f \<noteq> data_source))
          \<and> fst (evaluate_rules str_dtype user_name data_source d) = Inr hits \<longrightarrow>
          (\<forall>h\<in>set hits. getattr h ''id'' \<noteq> Inr (IntC (wr_id r))))"
proof (intro conjI allI impI)
  assume "\<not> wr_isActive r"
  then have "skip_rule data_source (rule_row str_dtype d r) = Inr True"
    by (simp add: skip_rule_rule_row)
  then show "rule_body data_source prefs (rule_row str_dtype d r) d' = (Inr None, d')"
    by (rule rule_body_skipped)
next
  fix f assume "wr_dataSourceFilter r = Some f \<and> f \<noteq> [] \<and> f \<noteq> data_source"
  then have "skip_rule data_source (rule_row str_dtype d r) = Inr True"
    by (simp add: skip_rule_rule_row)
  then show "rule_body data_source prefs (rule_row str_dtype d r) d' = (Inr None, d')"
    by (rule rule_body_skipped)
next
  assume "wr_isActive r
        \<and> (wr_dataSourceFilter r = Some []
             \<or> (wr_dataSourceFilter r = None \<and> filter_null str_dtype d = NoneC))"
  then show "skip_rule data_source (rule_row str_dtype d r) = Inr False"
    by (auto simp: skip_rule_rule_row)
next
  assume "wr_dataSourceFilter r = None \<and> filter_null str_dtype d = NaNC"
  then have "skip_rule data_source (rule_row str_dtype d r) = Inr True"
    by (simp add: skip_rule_rule_row)
  then show "rule_body data_source prefs (rule_row str_dtype d r) d' = (Inr None, d')"
    by (rule rule_body_skipped)
next
  fix rules hits d'' h
  assume "rules_loop data_source prefs rules [] d' = (Inr hits, d'') \<and> h \<in> set hits"
  then show "\<exists>r'\<in>set rules. skip_rule data_source r' = Inr False \<and> make_hit r' = Inr h"
    using rules_loop_hits [of data_source prefs rules "[]" d' hits d'' h] by simp
next
  fix hits
  assume "r \<in> set (warningRule d)
          \<and> (\<not> wr_isActive r
               \<or> (\<exists>f. wr_dataSourceFilter r = Some f \<and> f \<noteq> [] \<and> f \<noteq> data_source))
          \<and> fst (evaluate_rules str_dtype user_name data_source d) = Inr hits"
  then have "hits = []"
    using evaluate_rules_hits by blast
  then show "\<forall>h\<in>set hits. getattr h ''id'' \<noteq> Inr (IntC (wr_id r))"
    by simp
qed


subsection \<open>C7: \<open>IS NULL\<close> and \<open>IS NOT NULL\<close>\<close>

text \<open>
  Claim C7. For every node and every state of the preferences, a condition \<open>IS NULL\<close>
  on the node matches if and only if no selection is stored for it, a condition
  \<open>IS NOT NULL\<close> on the node matches if and only if one is stored, and exactly one of the
  two matches. No selection is stored when the table has no row for the user, the data
  source and the node.
\<close>

theorem null_tests_are_complements:
  assumes "wc_operator c1 = ''IS NULL''" and "wc_operator c2 = ''IS NOT NULL''"
    and "wc_pillarNode_id c1 = node" and "wc_pillarNode_id c2 = node"
  shows "cond_step (fst (fetch_user_pref_map user_name data_source d)) (cond_row c1 n1 v1)
           = Inr (selection d user_name data_source node = None)
       \<and> cond_step (fst (fetch_user_pref_map user_name data_source d)) (cond_row c2 n2 v2)
           = Inr (selection d user_name data_source node \<noteq> None)
       \<and> ((cond_step (fst (fetch_user_pref_map user_name data_source d)) (cond_row c1 n1 v1) = Inr True)
            \<noteq> (cond_step (fst (fetch_user_pref_map user_name data_source d)) (cond_row c2 n2 v2) = Inr True))
       \<and> (selection d user_name data_source node = None \<longleftrightarrow>
            \<not> (\<exists>p\<in>set (userNodePreference d).
                  up_userName p = user_name \<and> up_dataSource p = data_source \<and> up_pillarNode_id p = node))"
proof -
  have "cond_step (fst (fetch_user_pref_map user_name data_source d)) (cond_row c1 n1 v1)
          = Inr (selection d user_name data_source node = None)"
    using assms by (simp add: cond_step_cond_row upper_ops)
  moreover
  have "cond_step (fst (fetch_user_pref_map user_name data_source d)) (cond_row c2 n2 v2)
          = Inr (selection d user_name data_source node \<noteq> None)"
    using assms by (simp add: cond_step_cond_row upper_ops)
  ultimately show ?thesis
    using selection_None_iff [where d = d and u = user_name and ds = data_source and node = node]
    by auto
qed

text \<open>
  In the example store alice has a selection for node 20.
\<close>

theorem null_tests_are_complements_witness:
  "wc_operator cond_is_null = ''IS NULL'' \<and> wc_operator cond_is_not_null = ''IS NOT NULL''
   \<and> wc_pillarNode_id cond_is_null = 20 \<and> wc_pillarNode_id cond_is_not_null = 20
   \<and> selection store ''alice'' ''Salesforce API'' 20 = Some 9
   \<and> cond_step (fst (fetch_user_pref_map ''alice'' ''Salesforce API'' store))
        (cond_row cond_is_null node20 None) = Inr False
   \<and> cond_step (fst (fetch_user_pref_map ''alice'' ''Salesforce API'' store))
        (cond_row cond_is_not_null node20 None) = Inr True"
proof -
  have h1: "wc_operator cond_is_null = ''IS NULL''" by (simp add: cond_is_null_def)
  have h2: "wc_operator cond_is_not_null = ''IS NOT NULL''" by (simp add: cond_is_not_null_def)
  have h3: "wc_pillarNode_id cond_is_null = 20" by (simp add: cond_is_null_def)
  have h4: "wc_pillarNode_id cond_is_not_null = 20" by (simp add: cond_is_not_null_def)
  have sel: "selection store ''alice'' ''Salesforce API'' 20 = Some 9" by code_simp
  from null_tests_are_complements [OF h1 h2 h3 h4, where d = store and user_name = "''alice''"
      and data_source = "''Salesforce API''" and ?n1.0 = node20 and ?v1.0 = None
      and ?n2.0 = node20 and ?v2.0 = None] sel
  have "cond_step (fst (fetch_user_pref_map ''alice'' ''Salesforce API'' store))
          (cond_row cond_is_null node20 None) = Inr False
      \<and> cond_step (fst (fetch_user_pref_map ''alice'' ''Salesforce API'' store))
          (cond_row cond_is_not_null node20 None) = Inr True"
    by simp
  with h1 h2 h3 h4 sel show ?thesis by blast
qed

subsection \<open>C8: operators the evaluator does not know\<close>

text \<open>
  Claim C8, as the evaluator has it. The operator is upper-cased before it is compared
  (line 183). When a condition fetched for a rule has an operator that, upper-cased, is
  none of \<open>=\<close>, \<open>!=\<close>, \<open><>\<close>, \<open>IS NULL\<close> and \<open>IS NOT NULL\<close>, the condition does
  not match, the loop over the rule's conditions ends with \<open>ok\<close> false, the rule's pass
  appends no hit and raises nothing, and the rule is in no list of hits returned.
\<close>

theorem unknown_operator_fails_rule:
  assumes "c \<in> set (fst (fetch_rule_conditions (wr_id r) d))"
    and "getattr c ''operator'' = Inr (StrC op)"
    and "upper op \<notin> {''='', ''!='', ''<>'', ''IS NULL'', ''IS NOT NULL''}"
  shows "cond_step prefs c = Inr False
       \<and> conds_loop prefs (fst (fetch_rule_conditions (wr_id r) d)) = Inr False
       \<and> rule_body data_source prefs (rule_row str_dtype d r) d = (Inr None, d)
       \<and> (\<forall>hits. r \<in> set (warningRule d)
             \<and> fst (evaluate_rules str_dtype user_name data_source d) = Inr hits \<longrightarrow>
             (\<forall>h\<in>set hits. getattr h ''id'' \<noteq> Inr (IntC (wr_id r))))"
proof -
  obtain c' n v where c: "c = cond_row c' n v"
    using assms(1) fetch_rule_conditions_rows by blast
  with assms(2) have "wc_operator c' = op"
    by (simp add: getattr_cond_row)
  with assms(3) c have step: "cond_step prefs c = Inr False"
    by (simp add: cond_step_cond_row)
  then have "cond_step prefs c \<noteq> Inr True"
    by simp
  with assms(1) have "\<not> (\<forall>c\<in>set (fst (fetch_rule_conditions (wr_id r) d)). cond_step prefs c = Inr True)"
    by blast
  then have loop: "conds_loop prefs (fst (fetch_rule_conditions (wr_id r) d)) = Inr False"
    by (simp add: conds_loop_fetched)
  then have "\<not> fires str_dtype data_source prefs d r"
    by (simp add: fires_def)
  then have body: "rule_body data_source prefs (rule_row str_dtype d r) d = (Inr None, d)"
    by (simp add: rule_body_rule_row)
  have "\<forall>hits. r \<in> set (warningRule d)
             \<and> fst (evaluate_rules str_dtype user_name data_source d) = Inr hits \<longrightarrow>
             (\<forall>h\<in>set hits. getattr h ''id'' \<noteq> Inr (IntC (wr_id r)))"
    using evaluate_rules_hits by fastforce
  with step loop body show ?thesis by blast
qed

text \<open>
  The rule R5 of the example store has the one condition \<open>node 10 LIKE 5\<close>.
\<close>

theorem unknown_operator_fails_rule_witness:
  "cond_row cond_like node10 (Some \<lparr>pv_id = 5, pv_pillarNodeValue = ''Unstructured''\<rparr>)
     \<in> set (fst (fetch_rule_conditions (wr_id rule5) store))
   \<and> getattr (cond_row cond_like node10 (Some \<lparr>pv_id = 5, pv_pillarNodeValue = ''Unstructured''\<rparr>))
       ''operator'' = Inr (StrC ''LIKE'')
   \<and> upper ''LIKE'' \<notin> {''='', ''!='', ''<>'', ''IS NULL'', ''IS NOT NULL''}
   \<and> rule_body ''Salesforce API'' (fst (fetch_user_pref_map ''alice'' ''Salesforce API'' store))
        (rule_row False store rule5) store = (Inr None, store)
   \<and> rule_body ''Salesforce API'' (fst (fetch_user_pref_map ''alice'' ''Salesforce API'' store))
        (rule_row True store rule5) store = (Inr None, store)"
proof -
  have h1: "cond_row cond_like node10 (Some \<lparr>pv_id = 5, pv_pillarNodeValue = ''Unstructured''\<rparr>)
     \<in> set (fst (fetch_rule_conditions (wr_id rule5) store))"
    by code_simp
  have h2: "getattr (cond_row cond_like node10 (Some \<lparr>pv_id = 5, pv_pillarNodeValue = ''Unstructured''\<rparr>))
       ''operator'' = Inr (StrC ''LIKE'')"
    by code_simp
  have h3: "upper ''LIKE'' \<notin> {''='', ''!='', ''<>'', ''IS NULL'', ''IS NOT NULL''}"
    by code_simp
  from unknown_operator_fails_rule [OF h1 h2 h3, where data_source = "''Salesforce API''"
      and prefs = "fst (fetch_user_pref_map ''alice'' ''Salesforce API'' store)"
      and str_dtype = False]
  have a: "rule_body ''Salesforce API'' (fst (fetch_user_pref_map ''alice'' ''Salesforce API'' store))
        (rule_row False store rule5) store = (Inr None, store)"
    by blast
  from unknown_operator_fails_rule [OF h1 h2 h3, where data_source = "''Salesforce API''"
      and prefs = "fst (fetch_user_pref_map ''alice'' ''Salesforce API'' store)"
      and str_dtype = True]
  have b: "rule_body ''Salesforce API'' (fst (fetch_user_pref_map ''alice'' ''Salesforce API'' store))
        (rule_row True store rule5) store = (Inr None, store)"
    by blast
  from h1 h2 h3 a b show ?thesis by blast
qed

text \<open>
  Claim C8 as it is written speaks of every operator string that is not one of the five.
  The string \<open>is null\<close> is none of them, and the rule 3 of \<open>store_odd\<close>, whose one
  condition has it, matches when no selection is stored.
\<close>

theorem lower_case_operator_is_known:
  "wc_operator cond_lower \<notin> {''='', ''!='', ''<>'', ''IS NULL'', ''IS NOT NULL''}
   \<and> fst (fetch_rule_conditions 3 store_odd) = [cond_row cond_lower node10 None]
   \<and> conds_loop (fst (fetch_user_pref_map ''alice'' ''Salesforce API'' store_odd))
        (fst (fetch_rule_conditions 3 store_odd)) = Inr True"
  by code_simp

subsection \<open>C9: the store is left as it was\<close>

text \<open>
  Claim C9. \<open>evaluate_rules\<close> leaves the store as it found it, and a second call with
  the same user and data source, made on the store the first call left, has the outcome
  of the first.
\<close>

theorem evaluate_rules_reads_only:
  "snd (evaluate_rules str_dtype user_name data_source d) = d
   \<and> evaluate_rules str_dtype user_name data_source
         (snd (evaluate_rules str_dtype user_name data_source d))
       = evaluate_rules str_dtype user_name data_source d"
  by (simp add: evaluate_rules_db)

text \<open>
  Two evaluations on the example store.
\<close>

theorem evaluate_rules_reads_only_witness:
  "snd (evaluate_rules False ''bob'' ''Workday API'' store) = store
   \<and> evaluate_rules False ''bob'' ''Workday API''
         (snd (evaluate_rules False ''bob'' ''Workday API'' store))
       = (Inr [], store)"
proof -
  have "evaluate_rules False ''bob'' ''Workday API'' store = (Inr [], store)"
    by code_simp
  with evaluate_rules_reads_only [of False "''bob''" "''Workday API''" store]
  show ?thesis by simp
qed

subsection \<open>C10: the case of the operator\<close>



end
